theory Spec2Isabelle
  imports Complex_Main "HOL-Library.Sublist"
begin

section \<open>Errors\<close>

text \<open>
  The exceptions that \<open>test.py\<close> and the tensor operations it calls can raise.
  \<open>AssertionError\<close> is the two \<open>assert\<close> statements, \<open>AttributeError\<close> a read of
  a \<open>config\<close> attribute the module does not define, \<open>RuntimeError\<close> a shape
  mismatch in a broadcasting operation or in \<open>torch.cat\<close> (and \<open>torch.cat\<close> of an
  empty list), \<open>IndexError\<close> a boolean mask whose shape differs from the indexed
  tensor, index 0 of an empty tensor, or \<open>argmax\<close> over an empty dimension.

  \<open>NonFinite\<close> is not an exception of the source. Tensor elements are 32-bit floats
  in the program and exact reals here; a float division by zero yields \<open>inf\<close> or
  \<open>nan\<close> and the program carries on, whereas HOL's \<open>x / 0\<close> is \<open>0\<close>. The model
  stops with \<open>NonFinite\<close> at a zero denominator instead of computing with that \<open>0\<close>.
  Rounding and overflow of the floats are outside the model.
\<close>

datatype error = AssertionError | AttributeError | RuntimeError | IndexError | NonFinite

definition ebind :: "error + 'a \<Rightarrow> ('a \<Rightarrow> error + 'b) \<Rightarrow> error + 'b" where
  "ebind m f = (case m of Inl e \<Rightarrow> Inl e | Inr x \<Rightarrow> f x)"

fun emap :: "('a \<Rightarrow> error + 'b) \<Rightarrow> 'a list \<Rightarrow> error + 'b list" where
  "emap f [] = Inr []"
| "emap f (x # xs) = ebind (f x) (\<lambda>y. ebind (emap f xs) (\<lambda>ys. Inr (y # ys)))"

section \<open>Tensors\<close>

text \<open>
  A tensor is its shape and its element at every index. The ranks are the ones the
  comments of \<open>test.py\<close> document: images, embeddings and score maps are
  \<open>[B, C, H, W]\<close>, masks and label maps \<open>[B, H, W]\<close>. Elements outside the shape are
  never read by the operations below.
\<close>

type_synonym shape3 = "nat \<times> nat \<times> nat"
type_synonym shape4 = "nat \<times> nat \<times> nat \<times> nat"

record 'a tensor3 =
  dims3 :: shape3
  at3 :: "nat \<Rightarrow> nat \<Rightarrow> nat \<Rightarrow> 'a"

record 'a tensor4 =
  dims4 :: shape4
  at4 :: "nat \<Rightarrow> nat \<Rightarrow> nat \<Rightarrow> nat \<Rightarrow> 'a"

text \<open>Sum of \<open>f 0, ..., f (n - 1)\<close>.\<close>

definition sum_upto :: "nat \<Rightarrow> (nat \<Rightarrow> real) \<Rightarrow> real" where
  "sum_upto n f = sum_list (map f [0..<n])"

definition all_upto :: "nat \<Rightarrow> (nat \<Rightarrow> bool) \<Rightarrow> bool" where
  "all_upto n p = list_all p [0..<n]"

subsection \<open>Broadcasting\<close>

text \<open>
  Two sizes of one dimension are compatible when they are equal or one of them is 1;
  the operand of size 1 is then read at index 0 throughout.
\<close>

definition broadcast_dim :: "nat \<Rightarrow> nat \<Rightarrow> error + nat" where
  "broadcast_dim m n =
     (if m = n then Inr m
      else if m = 1 then Inr n
      else if n = 1 then Inr m
      else Inl RuntimeError)"

definition bidx :: "nat \<Rightarrow> nat \<Rightarrow> nat" where
  "bidx m i = (if m = 1 then 0 else i)"

definition broadcast3 :: "shape3 \<Rightarrow> shape3 \<Rightarrow> error + shape3" where
  "broadcast3 s t =
     (case (s, t) of ((a, b, c), (a', b', c')) \<Rightarrow>
        ebind (broadcast_dim a a') (\<lambda>x.
        ebind (broadcast_dim b b') (\<lambda>y.
        ebind (broadcast_dim c c') (\<lambda>z. Inr (x, y, z)))))"

definition broadcast4 :: "shape4 \<Rightarrow> shape4 \<Rightarrow> error + shape4" where
  "broadcast4 s t =
     (case (s, t) of ((a, b, c, d), (a', b', c', d')) \<Rightarrow>
        ebind (broadcast_dim a a') (\<lambda>x.
        ebind (broadcast_dim b b') (\<lambda>y.
        ebind (broadcast_dim c c') (\<lambda>z.
        ebind (broadcast_dim d d') (\<lambda>u. Inr (x, y, z, u))))))"

definition binop3 :: "('a \<Rightarrow> 'b \<Rightarrow> 'c) \<Rightarrow> 'a tensor3 \<Rightarrow> 'b tensor3 \<Rightarrow> error + 'c tensor3" where
  "binop3 f x y =
     ebind (broadcast3 (dims3 x) (dims3 y)) (\<lambda>s.
       case (dims3 x, dims3 y) of ((a, b, c), (a', b', c')) \<Rightarrow>
         Inr \<lparr>dims3 = s,
              at3 = (\<lambda>i j k. f (at3 x (bidx a i) (bidx b j) (bidx c k))
                               (at3 y (bidx a' i) (bidx b' j) (bidx c' k)))\<rparr>)"

definition binop4 :: "('a \<Rightarrow> 'b \<Rightarrow> 'c) \<Rightarrow> 'a tensor4 \<Rightarrow> 'b tensor4 \<Rightarrow> error + 'c tensor4" where
  "binop4 f x y =
     ebind (broadcast4 (dims4 x) (dims4 y)) (\<lambda>s.
       case (dims4 x, dims4 y) of ((a, b, c, d), (a', b', c', d')) \<Rightarrow>
         Inr \<lparr>dims4 = s,
              at4 = (\<lambda>i j k l. f (at4 x (bidx a i) (bidx b j) (bidx c k) (bidx d l))
                                 (at4 y (bidx a' i) (bidx b' j) (bidx c' k) (bidx d' l)))\<rparr>)"

text \<open>
  A rank-3 operand of a rank-4 operation is aligned with the trailing dimensions: its
  shape \<open>[N, H, W]\<close> is read as \<open>[1, N, H, W]\<close>.
\<close>

definition align4 :: "'a tensor3 \<Rightarrow> 'a tensor4" where
  "align4 t = (case dims3 t of (n, h, w) \<Rightarrow>
     \<lparr>dims4 = (1, n, h, w), at4 = (\<lambda>_ i j k. at3 t i j k)\<rparr>)"

subsection \<open>The operations of \<open>torch\<close> that the evaluation uses\<close>

text \<open>\<open>t.unsqueeze(1)\<close> on \<open>[N, H, W]\<close> gives \<open>[N, 1, H, W]\<close>.\<close>

definition unsqueeze1 :: "'a tensor3 \<Rightarrow> 'a tensor4" where
  "unsqueeze1 t = (case dims3 t of (n, h, w) \<Rightarrow>
     \<lparr>dims4 = (n, 1, h, w), at4 = (\<lambda>i _ j k. at3 t i j k)\<rparr>)"

text \<open>\<open>x * y\<close>, \<open>x - y\<close> and \<open>x < y\<close>, broadcasting.\<close>

definition mul4 :: "real tensor4 \<Rightarrow> real tensor4 \<Rightarrow> error + real tensor4" where
  "mul4 x y = binop4 (\<lambda>a b. a * b) x y"

definition sub4 :: "real tensor4 \<Rightarrow> real tensor4 \<Rightarrow> error + real tensor4" where
  "sub4 x y = binop4 (\<lambda>a b. a - b) x y"

definition lt3 :: "real tensor3 \<Rightarrow> real tensor3 \<Rightarrow> error + bool tensor3" where
  "lt3 x y = binop3 (\<lambda>a b. a < b) x y"

text \<open>
  \<open>x / y\<close>, broadcasting; a zero among the denominators that the result reads is
  \<open>NonFinite\<close> (see above).
\<close>

definition all_index4 :: "shape4 \<Rightarrow> (nat \<Rightarrow> nat \<Rightarrow> nat \<Rightarrow> nat \<Rightarrow> bool) \<Rightarrow> bool" where
  "all_index4 s p = (case s of (a, b, c, d) \<Rightarrow>
     all_upto a (\<lambda>i. all_upto b (\<lambda>j. all_upto c (\<lambda>k. all_upto d (\<lambda>l. p i j k l)))))"

definition div4 :: "real tensor4 \<Rightarrow> real tensor4 \<Rightarrow> error + real tensor4" where
  "div4 x y =
     ebind (broadcast4 (dims4 x) (dims4 y)) (\<lambda>s.
       case dims4 y of (a', b', c', d') \<Rightarrow>
         if all_index4 s (\<lambda>i j k l. at4 y (bidx a' i) (bidx b' j) (bidx c' k) (bidx d' l) \<noteq> 0)
         then binop4 (\<lambda>a b. a / b) x y
         else Inl NonFinite)"

text \<open>\<open>t + s\<close> and \<open>s - t\<close> for a scalar \<open>s\<close>; \<open>t ** 2\<close>.\<close>

definition add_scalar3 :: "real tensor3 \<Rightarrow> real \<Rightarrow> real tensor3" where
  "add_scalar3 t s = t\<lparr>at3 := (\<lambda>i j k. at3 t i j k + s)\<rparr>"

definition rsub_scalar3 :: "real \<Rightarrow> real tensor3 \<Rightarrow> real tensor3" where
  "rsub_scalar3 s t = t\<lparr>at3 := (\<lambda>i j k. s - at3 t i j k)\<rparr>"

definition pow2 :: "real tensor4 \<Rightarrow> real tensor4" where
  "pow2 t = t\<lparr>at4 := (\<lambda>i j k l. (at4 t i j k l)\<^sup>2)\<rparr>"

text \<open>\<open>t.sum(dim=(-2, -1), keepdim=True)\<close> at rank 4 and at rank 3.\<close>

definition sum_hw4 :: "real tensor4 \<Rightarrow> real tensor4" where
  "sum_hw4 t = (case dims4 t of (n, c, h, w) \<Rightarrow>
     \<lparr>dims4 = (n, c, 1, 1),
      at4 = (\<lambda>i j _ _. sum_upto h (\<lambda>y. sum_upto w (\<lambda>x. at4 t i j y x)))\<rparr>)"

definition sum_hw3 :: "real tensor3 \<Rightarrow> real tensor3" where
  "sum_hw3 t = (case dims3 t of (n, h, w) \<Rightarrow>
     \<lparr>dims3 = (n, 1, 1),
      at3 = (\<lambda>i _ _. sum_upto h (\<lambda>y. sum_upto w (\<lambda>x. at3 t i y x)))\<rparr>)"

text \<open>\<open>t.sum(dim=1)\<close>: \<open>[N, C, H, W]\<close> to \<open>[N, H, W]\<close>.\<close>

definition sum_dim1 :: "real tensor4 \<Rightarrow> real tensor3" where
  "sum_dim1 t = (case dims4 t of (n, c, h, w) \<Rightarrow>
     \<lparr>dims3 = (n, h, w), at3 = (\<lambda>i y x. sum_upto c (\<lambda>j. at4 t i j y x))\<rparr>)"

text \<open>\<open>torch.zeros_like(t)\<close>.\<close>

definition zeros_like :: "int tensor3 \<Rightarrow> int tensor3" where
  "zeros_like t = \<lparr>dims3 = dims3 t, at3 = (\<lambda>_ _ _. 0)\<rparr>"

text \<open>
  \<open>t[m] = v\<close> for a boolean mask \<open>m\<close> of the rank of \<open>t\<close>: the shapes must be equal
  (a mask is not broadcast), and \<open>v\<close> is written where the mask is true.
\<close>

definition mask_assign :: "'a tensor3 \<Rightarrow> bool tensor3 \<Rightarrow> 'a \<Rightarrow> error + 'a tensor3" where
  "mask_assign t m v =
     (if dims3 m = dims3 t
      then Inr (t\<lparr>at3 := (\<lambda>i j k. if at3 m i j k then v else at3 t i j k)\<rparr>)
      else Inl IndexError)"

text \<open>
  \<open>torch.cat(ts, dim=0)\<close> at rank 3: the list must not be empty and the tensors must
  agree in the other two dimensions.
\<close>

definition append0 :: "'a tensor3 \<Rightarrow> 'a tensor3 \<Rightarrow> 'a tensor3" where
  "append0 s t = (case (dims3 s, dims3 t) of ((n, h, w), (n', _, _)) \<Rightarrow>
     \<lparr>dims3 = (n + n', h, w),
      at3 = (\<lambda>i j k. if i < n then at3 s i j k else at3 t (i - n) j k)\<rparr>)"

fun cat0 :: "'a tensor3 list \<Rightarrow> error + 'a tensor3" where
  "cat0 [] = Inl RuntimeError"
| "cat0 [t] = Inr t"
| "cat0 (t # ts) =
     ebind (cat0 ts) (\<lambda>r.
       if snd (dims3 t) = snd (dims3 r) then Inr (append0 t r) else Inl RuntimeError)"

section \<open>Prototype-distance decoding (\<open>test.py\<close>, lines 85 to 94)\<close>

text \<open>
  Line 89: \<open>support_fts_pos = torch.sum(support_fts * support_fg_mask.unsqueeze(1),
  dim=(-2, -1), keepdim=True) / (support_fg_mask.sum(dim=(-2, -1), keepdim=True) + 1e-8)\<close>.
  The numerator has shape \<open>[N, C, 1, 1]\<close>; the denominator is a rank-3 tensor
  \<open>[N, 1, 1]\<close>, which the division aligns as \<open>[1, N, 1, 1]\<close>.
\<close>

definition eps :: real where
  "eps = 1 / 10 ^ 8"

definition support_fts_pos :: "real tensor4 \<Rightarrow> real tensor3 \<Rightarrow> error + real tensor4" where
  "support_fts_pos support_fts support_fg_mask =
     ebind (mul4 support_fts (unsqueeze1 support_fg_mask)) (\<lambda>p.
       div4 (sum_hw4 p) (align4 (add_scalar3 (sum_hw3 support_fg_mask) eps)))"

text \<open>Line 90: the same with \<open>1 - support_fg_mask\<close> for the mask.\<close>

definition support_fts_neg :: "real tensor4 \<Rightarrow> real tensor3 \<Rightarrow> error + real tensor4" where
  "support_fts_neg support_fts support_fg_mask =
     ebind (mul4 support_fts (unsqueeze1 (rsub_scalar3 1 support_fg_mask))) (\<lambda>p.
       div4 (sum_hw4 p) (align4 (add_scalar3 (sum_hw3 (rsub_scalar3 1 support_fg_mask)) eps)))"

text \<open>
  Lines 93 and 94: \<open>query_pred = torch.zeros_like(query_labels)\<close>, then 1 is written
  where \<open>((query_fts - support_fts_pos)**2).sum(dim=1)\<close> is less than the same with
  \<open>support_fts_neg\<close>.
\<close>

definition query_pred_metric ::
    "real tensor4 \<Rightarrow> real tensor4 \<Rightarrow> real tensor4 \<Rightarrow> int tensor3 \<Rightarrow> error + int tensor3" where
  "query_pred_metric query_fts pos neg query_labels =
     ebind (sub4 query_fts pos) (\<lambda>dp.
     ebind (sub4 query_fts neg) (\<lambda>dn.
     ebind (lt3 (sum_dim1 (pow2 dp)) (sum_dim1 (pow2 dn))) (\<lambda>m.
       mask_assign (zeros_like query_labels) m 1)))"

text \<open>\<open>t.argmax(dim=1)\<close>: the index of the first maximal score along the class axis.\<close>

primrec argmax_upto :: "nat \<Rightarrow> (nat \<Rightarrow> real) \<Rightarrow> nat" where
  "argmax_upto 0 f = 0"
| "argmax_upto (Suc n) f =
     (if n = 0 then 0
      else if f (argmax_upto n f) < f n then n else argmax_upto n f)"

definition argmax_dim1 :: "real tensor4 \<Rightarrow> error + int tensor3" where
  "argmax_dim1 t = (case dims4 t of (n, c, h, w) \<Rightarrow>
     if c = 0 then Inl IndexError
     else Inr \<lparr>dims3 = (n, h, w),
               at3 = (\<lambda>i y x. int (argmax_upto c (\<lambda>j. at4 t i j y x)))\<rparr>)"

text \<open>\<open>np.array(t[0].cpu())\<close>: the first element of the batch as a two-dimensional array.\<close>

definition array0 :: "int tensor3 \<Rightarrow> error + int list list" where
  "array0 t = (case dims3 t of (n, h, w) \<Rightarrow>
     if n = 0 then Inl IndexError
     else Inr (map (\<lambda>y. map (\<lambda>x. at3 t 0 y x) [0..<w]) [0..<h]))"

section \<open>Configuration (\<open>config.py\<close>)\<close>

text \<open>
  \<open>config.py\<close> raises \<open>ValueError\<close> for a \<open>mode\<close> other than \<open>'train'\<close> and
  \<open>'test'\<close>, so a loaded configuration has one of the two. The attributes \<open>notrain\<close>,
  \<open>snapshot\<close> and \<open>n_runs\<close> exist only in mode \<open>'test'\<close>; the record carries them in
  both modes and \<open>test\<close> below fails where the program would read a missing one.
\<close>

datatype mode = Train | Test

record config =
  seed :: int
  mode :: mode
  model_type :: string
  n_steps :: int
  batch_size :: int
  n_ways :: int
  n_shots :: int
  n_queries :: int
  notrain :: bool
  n_runs :: int

text \<open>The values of \<open>config.py\<close> as it is, and with \<open>mode = 'test'\<close>.\<close>

definition config_train :: config where
  "config_train = \<lparr>seed = 1234, mode = Train, model_type = ''metric'', n_steps = 30000,
     batch_size = 1, n_ways = 1, n_shots = 1, n_queries = 1, notrain = False, n_runs = 0\<rparr>"

definition config_test :: config where
  "config_test = \<lparr>seed = 1234, mode = Test, model_type = ''metric'', n_steps = 1000,
     batch_size = 1, n_ways = 1, n_shots = 1, n_queries = 1, notrain = False, n_runs = 5\<rparr>"

section \<open>Episodes and networks\<close>

text \<open>
  A batch as the data loader yields it: \<open>class_ids\<close> is ways by batch, the support
  images and masks are ways by shots, the query images and labels one per query; every
  tensor has the batch as its first dimension. The masks are taken after \<open>.float()\<close>.
\<close>

record mask_pair =
  fg_mask :: "real tensor3"
  bg_mask :: "real tensor3"

record sample_batch =
  class_ids :: "int list list"
  support_images :: "real tensor4 list list"
  support_mask :: "mask_pair list list"
  query_images :: "real tensor4 list"
  query_labels :: "int tensor3 list"

text \<open>
  The two networks are outside this repository's evaluation script and are parameters:
  \<open>FewShotSegNet\<close> returns class scores \<open>[B, K, H, W]\<close>, \<open>MetricSegNet\<close> the support
  and the query embeddings.
\<close>

record networks =
  fewshot_net :: "real tensor4 list list \<Rightarrow> real tensor3 list list \<Rightarrow> real tensor3 list list
                   \<Rightarrow> real tensor4 list \<Rightarrow> real tensor4"
  metric_net :: "real tensor4 list list \<Rightarrow> real tensor4 list \<Rightarrow> real tensor4 \<times> real tensor4"

section \<open>The evaluation loop (\<open>test\<close>)\<close>

text \<open>
  Lines 67 to 94 for one batch: the query labels are concatenated, then the prediction
  is the argmax of the scores (\<open>'fewshot'\<close>) or the nearer of the two prototypes
  (\<open>'metric'\<close>). The result is \<open>(query_pred, query_labels)\<close>.
\<close>

definition decode :: "config \<Rightarrow> networks \<Rightarrow> sample_batch \<Rightarrow> error + int tensor3 \<times> int tensor3" where
  "decode cfg net sb =
     ebind (cat0 (query_labels sb)) (\<lambda>ql.
       if model_type cfg = ''fewshot'' then
         ebind (argmax_dim1 (fewshot_net net (support_images sb)
                  (map (map fg_mask) (support_mask sb))
                  (map (map bg_mask) (support_mask sb)) (query_images sb))) (\<lambda>qp.
           Inr (qp, ql))
       else
         case metric_net net (support_images sb) (query_images sb) of
           (support_fts, query_fts) \<Rightarrow>
             ebind (emap cat0 (map (map fg_mask) (support_mask sb))) (\<lambda>ways.
             ebind (cat0 ways) (\<lambda>support_fg_mask.
             ebind (support_fts_pos support_fts support_fg_mask) (\<lambda>pos.
             ebind (support_fts_neg support_fts support_fg_mask) (\<lambda>neg.
             ebind (query_pred_metric query_fts pos neg ql) (\<lambda>qp.
               Inr (qp, ql)))))))"

text \<open>
  What the run leaves behind, in order: the calls of \<open>set_seed\<close>, a mark for every
  batch whose prediction was computed, and the calls of the \<open>Metric\<close> object's
  \<open>record\<close>, \<open>get_mIoU\<close> and \<open>get_mIoU_binary\<close> with their arguments (\<open>None\<close> is a
  call without \<open>n_run\<close>). \<open>Metric\<close> itself is outside the script.
\<close>

datatype event =
    SetSeed int
  | Decode
  | Record "int list list" "int list list" "int list list" nat
  | GetMIoU "nat option"
  | GetMIoUBinary "nat option"

type_synonym outcome = "event list \<times> error option"

text \<open>Lines 67 to 98 for one batch.\<close>

definition process_batch :: "config \<Rightarrow> networks \<Rightarrow> nat \<Rightarrow> sample_batch \<Rightarrow> outcome" where
  "process_batch cfg net run sb =
     (case decode cfg net sb of
        Inl e \<Rightarrow> ([], Some e)
      | Inr (qp, ql) \<Rightarrow>
          (case ebind (array0 qp) (\<lambda>p. ebind (array0 ql) (\<lambda>l. Inr (p, l))) of
             Inl e \<Rightarrow> ([Decode], Some e)
           | Inr (p, l) \<Rightarrow> ([Decode, Record p l (class_ids sb) run], None)))"

text \<open>The loop of line 66; an exception ends it.\<close>

fun run_batches :: "config \<Rightarrow> networks \<Rightarrow> nat \<Rightarrow> sample_batch list \<Rightarrow> outcome" where
  "run_batches cfg net run [] = ([], None)"
| "run_batches cfg net run (sb # sbs) =
     (case process_batch cfg net run sb of
        (tr, Some e) \<Rightarrow> (tr, Some e)
      | (tr, None) \<Rightarrow>
          (case run_batches cfg net run sbs of (tr', r) \<Rightarrow> (tr @ tr', r)))"

text \<open>
  Lines 46 to 105 for one run. The data loader is a parameter: the batches it yields
  for a configuration once the random source has been seeded with the given value.
\<close>

definition run_once ::
    "config \<Rightarrow> networks \<Rightarrow> (config \<Rightarrow> int \<Rightarrow> sample_batch list) \<Rightarrow> nat \<Rightarrow> outcome" where
  "run_once cfg net testloader run =
     (if \<not> (n_ways cfg = 1 \<and> n_shots cfg = 1 \<and> n_queries cfg = 1)
      then ([SetSeed (seed cfg + int run)], Some AssertionError)
      else
        (case run_batches cfg net run (testloader cfg (seed cfg + int run)) of
           (tr, Some e) \<Rightarrow> (SetSeed (seed cfg + int run) # tr, Some e)
         | (tr, None) \<Rightarrow>
             (SetSeed (seed cfg + int run) # tr @ [GetMIoU (Some run), GetMIoUBinary (Some run)],
              None)))"

text \<open>The loop of line 45.\<close>

fun run_loop ::
    "config \<Rightarrow> networks \<Rightarrow> (config \<Rightarrow> int \<Rightarrow> sample_batch list) \<Rightarrow> nat list \<Rightarrow> outcome" where
  "run_loop cfg net testloader [] = ([], None)"
| "run_loop cfg net testloader (run # runs) =
     (case run_once cfg net testloader run of
        (tr, Some e) \<Rightarrow> (tr, Some e)
      | (tr, None) \<Rightarrow>
          (case run_loop cfg net testloader runs of (tr', r) \<Rightarrow> (tr @ tr', r)))"

text \<open>
  \<open>test()\<close>: the seed, the check of \<open>model_type\<close> (line 23), the read of
  \<open>config.notrain\<close> (line 30), the runs, and the two final calls (lines 107 and 108).
\<close>

definition test :: "config \<Rightarrow> networks \<Rightarrow> (config \<Rightarrow> int \<Rightarrow> sample_batch list) \<Rightarrow> outcome" where
  "test cfg net testloader =
     (if model_type cfg \<notin> set [''fewshot'', ''metric'']
      then ([SetSeed (seed cfg)], Some AssertionError)
      else if mode cfg \<noteq> Test
      then ([SetSeed (seed cfg)], Some AttributeError)
      else
        (case run_loop cfg net testloader [0..<nat (n_runs cfg)] of
           (tr, Some e) \<Rightarrow> (SetSeed (seed cfg) # tr, Some e)
         | (tr, None) \<Rightarrow>
             (SetSeed (seed cfg) # tr @ [GetMIoU None, GetMIoUBinary None], None)))"

section \<open>The prototypes as the specification words them\<close>

text \<open>
  For support sample \<open>n\<close> and channel \<open>j\<close>: the sum over the spatial grid of the
  embedding times the mask, divided by the sum of the mask plus \<open>1e-8\<close>; the background
  prototype takes \<open>1 - fg\<close> for the mask.
\<close>

definition fg_prototype :: "real tensor4 \<Rightarrow> real tensor3 \<Rightarrow> nat \<Rightarrow> nat \<Rightarrow> real" where
  "fg_prototype embedding fg n j = (case dims3 fg of (_, h, w) \<Rightarrow>
     (\<Sum>y<h. \<Sum>x<w. at4 embedding n j y x * at3 fg n y x)
       / ((\<Sum>y<h. \<Sum>x<w. at3 fg n y x) + 1 / 10 ^ 8))"

definition bg_prototype :: "real tensor4 \<Rightarrow> real tensor3 \<Rightarrow> nat \<Rightarrow> nat \<Rightarrow> real" where
  "bg_prototype embedding fg n j = (case dims3 fg of (_, h, w) \<Rightarrow>
     (\<Sum>y<h. \<Sum>x<w. at4 embedding n j y x * (1 - at3 fg n y x))
       / ((\<Sum>y<h. \<Sum>x<w. 1 - at3 fg n y x) + 1 / 10 ^ 8))"

section \<open>Small tensors for concrete runs\<close>

definition const3 :: "shape3 \<Rightarrow> 'a \<Rightarrow> 'a tensor3" where
  "const3 s v = \<lparr>dims3 = s, at3 = (\<lambda>_ _ _. v)\<rparr>"

definition const4 :: "shape4 \<Rightarrow> real \<Rightarrow> real tensor4" where
  "const4 s v = \<lparr>dims4 = s, at4 = (\<lambda>_ _ _ _. v)\<rparr>"

text \<open>A mask that covers the first sample of the batch and none of the others.\<close>

definition first_only3 :: "shape3 \<Rightarrow> real tensor3" where
  "first_only3 s = \<lparr>dims3 = s, at3 = (\<lambda>i _ _. if i = 0 then 1 else 0)\<rparr>"

text \<open>An embedding whose value is the column index; a mask that is 1 from column \<open>k\<close> on.\<close>

definition ramp4 :: "shape4 \<Rightarrow> real tensor4" where
  "ramp4 s = \<lparr>dims4 = s, at4 = (\<lambda>_ _ _ x. real x)\<rparr>"

definition step3 :: "shape3 \<Rightarrow> nat \<Rightarrow> real tensor3" where
  "step3 s k = \<lparr>dims3 = s, at3 = (\<lambda>_ _ x. if k \<le> x then 1 else 0)\<rparr>"

text \<open>
  Networks that return fixed tensors, a batch built from its masks and label maps, and
  a data loader that yields the same batches in every run.
\<close>

definition net_const :: "real tensor4 \<Rightarrow> real tensor4 \<Rightarrow> real tensor4 \<Rightarrow> networks" where
  "net_const scores support_fts query_fts =
     \<lparr>fewshot_net = (\<lambda>_ _ _ _. scores), metric_net = (\<lambda>_ _. (support_fts, query_fts))\<rparr>"

definition batch_of ::
    "real tensor4 \<Rightarrow> real tensor3 list list \<Rightarrow> int tensor3 list \<Rightarrow> int list list \<Rightarrow> sample_batch" where
  "batch_of img masks labels ids =
     \<lparr>class_ids = ids,
      support_images = map (map (\<lambda>_. img)) masks,
      support_mask = map (map (\<lambda>m. \<lparr>fg_mask = m, bg_mask = rsub_scalar3 1 m\<rparr>)) masks,
      query_images = map (\<lambda>_. img) labels,
      query_labels = labels\<rparr>"

definition loader_const :: "sample_batch list \<Rightarrow> config \<Rightarrow> int \<Rightarrow> sample_batch list" where
  "loader_const sbs cfg s = sbs"

section \<open>The order of calls\<close>

text \<open>
  The arguments of \<open>record\<close> other than the run are left out of the order of calls.
  One run: reseed with \<open>base_seed + run_index\<close>, then for every batch of the data
  loader a decode and one record, then that run's two statistics. All runs, then the two
  final statistics.
\<close>

fun erase :: "event \<Rightarrow> event" where
  "erase (Record p l ids run) = Record [] [] [] run"
| "erase e = e"

fun is_record :: "event \<Rightarrow> bool" where
  "is_record (Record p l ids run) = True"
| "is_record e = False"

definition run_calls :: "int \<Rightarrow> nat \<Rightarrow> nat \<Rightarrow> event list" where
  "run_calls base_seed n_batches run_index =
     SetSeed (base_seed + int run_index)
       # concat (replicate n_batches [Decode, Record [] [] [] run_index])
       @ [GetMIoU (Some run_index), GetMIoUBinary (Some run_index)]"

definition call_order :: "int \<Rightarrow> nat \<Rightarrow> (nat \<Rightarrow> nat) \<Rightarrow> event list" where
  "call_order base_seed R n_batches =
     concat (map (\<lambda>r. run_calls base_seed (n_batches r) r) [0..<R])
       @ [GetMIoU None, GetMIoUBinary None]"

text \<open>The first element of a batch of label maps, as a two-dimensional array.\<close>

definition first_element :: "int tensor3 \<Rightarrow> int list list" where
  "first_element t = (case dims3 t of (n, h, w) \<Rightarrow>
     map (\<lambda>y. map (\<lambda>x. at3 t 0 y x) [0..<w]) [0..<h])"

text \<open>
  Scores that prefer class \<open>i\<close> for sample \<open>i\<close>, labels that are \<open>i\<close> for sample
  \<open>i\<close>, and two episodes with their networks: one support sample whose last pixel of
  three is foreground, and a batch of two samples.
\<close>

definition diag4 :: "shape4 \<Rightarrow> real tensor4" where
  "diag4 s = \<lparr>dims4 = s, at4 = (\<lambda>i j _ _. if i = j then 1 else 0)\<rparr>"

definition index3 :: "shape3 \<Rightarrow> int tensor3" where
  "index3 s = \<lparr>dims3 = s, at3 = (\<lambda>i _ _. int i)\<rparr>"

definition nets1 :: networks where
  "nets1 = net_const (const4 (1, 2, 1, 3) 0) (ramp4 (1, 1, 1, 3)) (ramp4 (1, 1, 1, 3))"

definition episode1 :: sample_batch where
  "episode1 = batch_of (const4 (1, 3, 1, 3) 0) [[step3 (1, 1, 3) 2]] [const3 (1, 1, 3) 0] [[1]]"

definition nets2 :: networks where
  "nets2 = net_const (diag4 (2, 2, 1, 2)) (const4 (2, 2, 1, 2) 0) (const4 (2, 2, 1, 2) 0)"

definition episode2 :: sample_batch where
  "episode2 = batch_of (const4 (2, 3, 1, 2) 0) [[const3 (2, 1, 2) 1]] [index3 (2, 1, 2)] [[5, 7]]"

section \<open>Statistics across runs\<close>









section \<open>Basic facts\<close>

lemma ebind_Inr [simp]: "ebind (Inr x) f = f x"
  by (simp add: ebind_def)

lemma ebind_Inl [simp]: "ebind (Inl e) f = Inl e"
  by (simp add: ebind_def)

lemma ebind_eq_Inr: "ebind m f = Inr y \<longleftrightarrow> (\<exists>x. m = Inr x \<and> f x = Inr y)"
  by (cases m) auto

lemma ebind_eq_Inl: "ebind m f = Inl e \<longleftrightarrow> m = Inl e \<or> (\<exists>x. m = Inr x \<and> f x = Inl e)"
  by (cases m) auto

lemma sum_upto_sum: "sum_upto n f = (\<Sum>i<n. f i)"
  unfolding sum_upto_def by (simp add: interv_sum_list_conv_sum_set_nat atLeast0LessThan)

lemma sum_upto_0 [simp]: "sum_upto 0 f = 0"
  by (simp add: sum_upto_def)

lemma sum_upto_Suc [simp]: "sum_upto (Suc n) f = sum_upto n f + f n"
  by (simp add: sum_upto_def)

lemma all_upto_iff: "all_upto n p \<longleftrightarrow> (\<forall>i<n. p i)"
  unfolding all_upto_def by (auto simp: list_all_iff)

lemma all_index4_iff:
  "all_index4 (a, b, c, d) p \<longleftrightarrow> (\<forall>i<a. \<forall>j<b. \<forall>k<c. \<forall>l<d. p i j k l)"
  by (simp add: all_index4_def all_upto_iff)

lemma bidx_less [simp]: "i < m \<Longrightarrow> bidx m i = i"
  by (auto simp: bidx_def)

lemma bidx_1 [simp]: "bidx (Suc 0) i = 0"
  by (simp add: bidx_def)

lemma broadcast_dim_same [simp]: "broadcast_dim m m = Inr m"
  by (simp add: broadcast_dim_def)

lemma broadcast_dim_1_right [simp]: "broadcast_dim m (Suc 0) = Inr m"
  by (simp add: broadcast_dim_def)

lemma broadcast_dim_1_left [simp]: "broadcast_dim (Suc 0) n = Inr n"
  by (simp add: broadcast_dim_def)

lemma broadcast_dim_range:
  "broadcast_dim a b = Inr s \<Longrightarrow> i < s \<Longrightarrow> bidx a i < a \<and> bidx b i < b"
  by (auto simp: broadcast_dim_def bidx_def split: if_splits)

lemma broadcast4_Inr:
  "broadcast4 (a, b, c, d) (a', b', c', d') = Inr (x, y, z, u) \<longleftrightarrow>
     broadcast_dim a a' = Inr x \<and> broadcast_dim b b' = Inr y
       \<and> broadcast_dim c c' = Inr z \<and> broadcast_dim d d' = Inr u"
  by (auto simp: broadcast4_def ebind_eq_Inr)

lemma broadcast3_Inr:
  "broadcast3 (a, b, c) (a', b', c') = Inr (x, y, z) \<longleftrightarrow>
     broadcast_dim a a' = Inr x \<and> broadcast_dim b b' = Inr y \<and> broadcast_dim c c' = Inr z"
  by (auto simp: broadcast3_def ebind_eq_Inr)

lemma broadcast_dim_Inl: "broadcast_dim a b = Inl e \<Longrightarrow> e = RuntimeError"
  by (auto simp: broadcast_dim_def split: if_splits)

lemma broadcast4_Inl: "broadcast4 s t = Inl e \<Longrightarrow> e = RuntimeError"
  by (cases s; cases t) (auto simp: broadcast4_def ebind_eq_Inl dest: broadcast_dim_Inl)

lemma broadcast3_Inl: "broadcast3 s t = Inl e \<Longrightarrow> e = RuntimeError"
  by (cases s; cases t) (auto simp: broadcast3_def ebind_eq_Inl dest: broadcast_dim_Inl)

lemma binop4_Inl: "binop4 f x y = Inl e \<Longrightarrow> e = RuntimeError"
  by (cases "dims4 x"; cases "dims4 y") (auto simp: binop4_def ebind_eq_Inl dest: broadcast4_Inl)

lemma binop3_Inl: "binop3 f x y = Inl e \<Longrightarrow> e = RuntimeError"
  by (cases "dims3 x"; cases "dims3 y") (auto simp: binop3_def ebind_eq_Inl dest: broadcast3_Inl)

lemma eps_pos: "0 < eps"
  by (simp add: eps_def)

lemma sum_upto_nonneg: "(\<And>i. i < n \<Longrightarrow> 0 \<le> f i) \<Longrightarrow> 0 \<le> sum_upto n f"
  by (auto simp: sum_upto_sum intro!: sum_nonneg)

text \<open>div4 is NonFinite only at a zero denominator that the result reads.\<close>

lemma div4_NonFinite:
  assumes "div4 x y = Inl NonFinite" "dims4 x = (a, b, c, d)" "dims4 y = (a', b', c', d')"
  shows "\<exists>i<a'. \<exists>j<b'. \<exists>k<c'. \<exists>l<d'. at4 y i j k l = 0"
proof -
  from assms obtain s where s: "broadcast4 (a, b, c, d) (a', b', c', d') = Inr s"
    and nz: "\<not> all_index4 s (\<lambda>i j k l. at4 y (bidx a' i) (bidx b' j) (bidx c' k) (bidx d' l) \<noteq> 0)"
    by (auto simp: div4_def ebind_eq_Inl split: if_splits dest: broadcast4_Inl binop4_Inl)
  obtain p q r t where [simp]: "s = (p, q, r, t)" by (cases s) auto
  from nz obtain i j k l where "i < p" "j < q" "k < r" "l < t"
    and z: "at4 y (bidx a' i) (bidx b' j) (bidx c' k) (bidx d' l) = 0"
    by (auto simp: all_index4_iff)
  moreover from s have "broadcast_dim a a' = Inr p" "broadcast_dim b b' = Inr q"
    "broadcast_dim c c' = Inr r" "broadcast_dim d d' = Inr t"
    by (simp_all add: broadcast4_Inr)
  ultimately have "bidx a' i < a'" "bidx b' j < b'" "bidx c' k < c'" "bidx d' l < d'"
    by (auto dest: broadcast_dim_range)
  with z show ?thesis by blast
qed

lemma pos_not_NonFinite:
  assumes "dims3 m = (n, h, w)"
      and "\<forall>i<n. \<forall>y<h. \<forall>x<w. 0 \<le> at3 m i y x"
  shows "support_fts_pos fts m \<noteq> Inl NonFinite"
proof
  assume "support_fts_pos fts m = Inl NonFinite"
  then obtain p where p: "mul4 fts (unsqueeze1 m) = Inr p"
    and d: "div4 (sum_hw4 p) (align4 (add_scalar3 (sum_hw3 m) eps)) = Inl NonFinite"
    by (auto simp: support_fts_pos_def ebind_eq_Inl mul4_def dest: binop4_Inl)
  obtain a b c e where dp: "dims4 (sum_hw4 p) = (a, b, c, e)" by (cases "dims4 (sum_hw4 p)") auto
  have dy: "dims4 (align4 (add_scalar3 (sum_hw3 m) eps)) = (1, n, 1, 1)"
    using assms(1) by (simp add: align4_def add_scalar3_def sum_hw3_def)
  from div4_NonFinite [OF d dp dy] obtain j where "j < n"
    and z: "sum_upto h (\<lambda>y. sum_upto w (\<lambda>x. at3 m j y x)) + eps = 0"
    using assms(1) by (auto simp: align4_def add_scalar3_def sum_hw3_def)
  have "0 \<le> sum_upto h (\<lambda>y. sum_upto w (\<lambda>x. at3 m j y x))"
    using assms(2) \<open>j < n\<close> by (intro sum_upto_nonneg) auto
  with z eps_pos show False by linarith
qed

section \<open>The prototypes\<close>

lemma support_fts_neg_as_pos:
  "support_fts_neg fts m = support_fts_pos fts (rsub_scalar3 1 m)"
  by (simp add: support_fts_neg_def support_fts_pos_def)

lemma mul4_unsqueeze:
  assumes "dims4 fts = (n, c, h, w)" "dims3 m = (n, h, w)"
  shows "mul4 fts (unsqueeze1 m) =
     Inr \<lparr>dims4 = (n, c, h, w),
          at4 = (\<lambda>i j k l. at4 fts (bidx n i) (bidx c j) (bidx h k) (bidx w l)
                            * at3 m (bidx n i) (bidx h k) (bidx w l))\<rparr>"
  using assms by (simp add: mul4_def binop4_def broadcast4_def unsqueeze1_def)

text \<open>
  With one support sample in the batch (\<open>N = 1\<close>, the configuration of \<open>config.py\<close>:
  one way, one shot, batch size 1), lines 89 and 90 compute the prototypes of the
  specification.
\<close>

lemma support_fts_pos_single:
  assumes "dims4 fts = (1, c, h, w)" "dims3 m = (1, h, w)"
      and "(\<Sum>y<h. \<Sum>x<w. at3 m 0 y x) + eps \<noteq> 0"
  shows "\<exists>p. support_fts_pos fts m = Inr p \<and> dims4 p = (1, c, 1, 1)
           \<and> (\<forall>j<c. at4 p 0 j 0 0 = fg_prototype fts m 0 j)"
proof -
  have num: "sum_upto h (\<lambda>y. sum_upto w (\<lambda>x.
        at4 fts 0 j (bidx h y) (bidx w x) * at3 m 0 (bidx h y) (bidx w x)))
      = (\<Sum>y<h. \<Sum>x<w. at4 fts 0 j y x * at3 m 0 y x)" for j
    by (simp add: sum_upto_sum)
  have den: "sum_upto h (\<lambda>y. sum_upto w (\<lambda>x. at3 m 0 y x)) = (\<Sum>y<h. \<Sum>x<w. at3 m 0 y x)"
    by (simp add: sum_upto_sum)
  show ?thesis
    using assms
    by (simp add: support_fts_pos_def mul4_unsqueeze [OF assms(1,2)] div4_def sum_hw4_def
        sum_hw3_def align4_def add_scalar3_def broadcast4_def all_index4_iff binop4_def
        fg_prototype_def num den eps_def)
qed

lemma support_fts_neg_single:
  assumes "dims4 fts = (1, c, h, w)" "dims3 m = (1, h, w)"
      and "(\<Sum>y<h. \<Sum>x<w. 1 - at3 m 0 y x) + eps \<noteq> 0"
  shows "\<exists>p. support_fts_neg fts m = Inr p \<and> dims4 p = (1, c, 1, 1)
           \<and> (\<forall>j<c. at4 p 0 j 0 0 = bg_prototype fts m 0 j)"
proof -
  have "fg_prototype fts (rsub_scalar3 1 m) 0 j = bg_prototype fts m 0 j" for j
    by (simp add: fg_prototype_def bg_prototype_def rsub_scalar3_def)
  with support_fts_pos_single [of fts c h w "rsub_scalar3 1 m"] assms show ?thesis
    by (simp add: support_fts_neg_as_pos rsub_scalar3_def)
qed

text \<open>
  Claim C1. The claim: for every support sample the foreground prototype is the masked
  spatial sum of the embedding over the mask sum plus \<open>1e-8\<close>. The numerator of line 89
  is \<open>[N, C, 1, 1]\<close> and the denominator \<open>[N, 1, 1]\<close>, which broadcasting reads as
  \<open>[1, N, 1, 1]\<close>: the mask sums run along the channel axis. With two support samples
  and two channels, where the mask covers the one pixel of sample 0 and nothing of
  sample 1, channel 1 of sample 0 is divided by the mask sum of sample 1 and comes out
  as \<open>1e8\<close>, where the claim's formula gives \<open>1 / (1 + 1e-8)\<close>; with three channels
  the division raises.
\<close>

theorem support_fts_pos_two_samples:
  "map_sum id (\<lambda>p. (dims4 p, at4 p 0 0 0 0, at4 p 0 1 0 0))
       (support_fts_pos (const4 (2, 2, 1, 1) 1) (first_only3 (2, 1, 1)))
     = Inr ((2, 2, 1, 1), 1 / (1 + 1 / 10 ^ 8), 10 ^ 8)
   \<and> fg_prototype (const4 (2, 2, 1, 1) 1) (first_only3 (2, 1, 1)) 0 1 = 1 / (1 + 1 / 10 ^ 8)
   \<and> support_fts_pos (const4 (2, 3, 1, 1) 1) (first_only3 (2, 1, 1)) = Inl RuntimeError"
  by (simp add: support_fts_pos_def const4_def first_only3_def mul4_def binop4_def broadcast4_def
      broadcast_dim_def unsqueeze1_def div4_def sum_hw4_def sum_hw3_def align4_def add_scalar3_def
      eps_def all_index4_iff fg_prototype_def bidx_def less_Suc_eq numeral_2_eq_2)

text \<open>
  Claim C6. For a support mask with entries between 0 and 1 (an all-zero and an all-one
  mask among them), neither prototype divides by zero: every denominator is at least
  \<open>1e-8\<close>, for the foreground and for the background mask. With one support sample whose
  embedding has the mask's resolution both prototypes are computed and are the quotients
  of the specification.
\<close>

theorem prototype_denominators_floored:
  assumes "dims3 m = (n, h, w)"
      and "\<forall>i<n. \<forall>y<h. \<forall>x<w. 0 \<le> at3 m i y x \<and> at3 m i y x \<le> 1"
  shows "support_fts_pos fts m \<noteq> Inl NonFinite \<and> support_fts_neg fts m \<noteq> Inl NonFinite
     \<and> (\<forall>i<n. 1 / 10 ^ 8 \<le> at3 (add_scalar3 (sum_hw3 m) eps) i 0 0
              \<and> 1 / 10 ^ 8 \<le> at3 (add_scalar3 (sum_hw3 (rsub_scalar3 1 m)) eps) i 0 0)
     \<and> (n = 1 \<and> dims4 fts = (1, c, h, w) \<longrightarrow>
          (\<exists>p q. support_fts_pos fts m = Inr p \<and> support_fts_neg fts m = Inr q
             \<and> (\<forall>j<c. at4 p 0 j 0 0 = fg_prototype fts m 0 j
                     \<and> at4 q 0 j 0 0 = bg_prototype fts m 0 j)))"
proof (intro conjI allI impI)
  show "support_fts_pos fts m \<noteq> Inl NonFinite"
    using assms by (intro pos_not_NonFinite [of m n h w]) auto
  show "support_fts_neg fts m \<noteq> Inl NonFinite"
    unfolding support_fts_neg_as_pos
    using assms by (intro pos_not_NonFinite [of _ n h w]) (auto simp: rsub_scalar3_def)
next
  fix i assume "i < n"
  then have "0 \<le> (\<Sum>y<h. \<Sum>x<w. at3 m i y x)" "0 \<le> (\<Sum>y<h. \<Sum>x<w. 1 - at3 m i y x)"
    using assms(2) by (auto intro!: sum_nonneg)
  then show "1 / 10 ^ 8 \<le> at3 (add_scalar3 (sum_hw3 m) eps) i 0 0"
    and "1 / 10 ^ 8 \<le> at3 (add_scalar3 (sum_hw3 (rsub_scalar3 1 m)) eps) i 0 0"
    using assms(1)
    by (simp_all add: add_scalar3_def sum_hw3_def rsub_scalar3_def sum_upto_sum eps_def)
next
  assume a: "n = 1 \<and> dims4 fts = (1, c, h, w)"
  have "0 \<le> (\<Sum>y<h. \<Sum>x<w. at3 m 0 y x)" "0 \<le> (\<Sum>y<h. \<Sum>x<w. 1 - at3 m 0 y x)"
    using assms(2) a by (auto intro!: sum_nonneg)
  then have "(\<Sum>y<h. \<Sum>x<w. at3 m 0 y x) + eps \<noteq> 0"
    and "(\<Sum>y<h. \<Sum>x<w. 1 - at3 m 0 y x) + eps \<noteq> 0"
    using eps_pos by linarith+
  with support_fts_pos_single [of fts c h w m] support_fts_neg_single [of fts c h w m] a assms(1)
  show "\<exists>p q. support_fts_pos fts m = Inr p \<and> support_fts_neg fts m = Inr q
             \<and> (\<forall>j<c. at4 p 0 j 0 0 = fg_prototype fts m 0 j
                     \<and> at4 q 0 j 0 0 = bg_prototype fts m 0 j)"
    by auto
qed

text \<open>
  An all-zero mask of two pixels under an embedding that is 5 everywhere: the foreground
  prototype is 0 and the background prototype \<open>10 / (2 + 1e-8)\<close>.
\<close>

theorem prototype_denominators_floored_witness:
  "dims3 (const3 (1, 1, 2) (0::real)) = (1, 1, 2)
   \<and> 0 \<le> at3 (const3 (1, 1, 2) (0::real)) 0 0 0 \<and> at3 (const3 (1, 1, 2) (0::real)) 0 0 0 \<le> 1
   \<and> 0 \<le> at3 (const3 (1, 1, 2) (0::real)) 0 0 1 \<and> at3 (const3 (1, 1, 2) (0::real)) 0 0 1 \<le> 1
   \<and> support_fts_pos (const4 (1, 1, 1, 2) 5) (const3 (1, 1, 2) 0) \<noteq> Inl NonFinite
   \<and> support_fts_neg (const4 (1, 1, 1, 2) 5) (const3 (1, 1, 2) 0) \<noteq> Inl NonFinite
   \<and> (\<exists>p q. support_fts_pos (const4 (1, 1, 1, 2) 5) (const3 (1, 1, 2) 0) = Inr p
          \<and> support_fts_neg (const4 (1, 1, 1, 2) 5) (const3 (1, 1, 2) 0) = Inr q
          \<and> at4 p 0 0 0 0 = 0 \<and> at4 q 0 0 0 0 = 10 / (2 + 1 / 10 ^ 8))"
  using prototype_denominators_floored [of "const3 (1, 1, 2) 0" 1 1 2 "const4 (1, 1, 1, 2) 5" 1]
  by (simp add: const3_def const4_def fg_prototype_def bg_prototype_def lessThan_Suc
      numeral_2_eq_2)

section \<open>The nearest prototype\<close>

lemma sq_dist_to_prototype:
  assumes "dims4 q = (b, c, h, w)" "dims4 p = (b, c, 1, 1)"
  shows "\<exists>d. sub4 q p = Inr d \<and> dims3 (sum_dim1 (pow2 d)) = (b, h, w)
     \<and> (\<forall>i<b. \<forall>y<h. \<forall>x<w.
           at3 (sum_dim1 (pow2 d)) i y x = (\<Sum>j<c. (at4 q i j y x - at4 p i j 0 0)\<^sup>2))"
  using assms
  by (simp add: sub4_def binop4_def broadcast4_def sum_dim1_def pow2_def sum_upto_sum)

text \<open>
  Claim C2. For a query embedding \<open>[B, C, H, W]\<close>, prototypes \<open>[B, C, 1, 1]\<close> and a label
  map \<open>[B, H, W]\<close>, lines 93 and 94 return a map of the label map's shape whose pixel is 1
  when the squared distance of the pixel's embedding to the foreground prototype is
  strictly less than its squared distance to the background prototype, and 0 otherwise;
  so equal distances give 0.
\<close>

theorem nearest_prototype_label:
  assumes "dims4 query_fts = (b, c, h, w)" "dims4 pos = (b, c, 1, 1)"
      and "dims4 neg = (b, c, 1, 1)" "dims3 ql = (b, h, w)"
  shows "\<exists>qp. query_pred_metric query_fts pos neg ql = Inr qp \<and> dims3 qp = (b, h, w)
     \<and> (\<forall>i<b. \<forall>y<h. \<forall>x<w. at3 qp i y x =
          (if (\<Sum>j<c. (at4 query_fts i j y x - at4 pos i j 0 0)\<^sup>2)
                < (\<Sum>j<c. (at4 query_fts i j y x - at4 neg i j 0 0)\<^sup>2)
           then 1 else 0))"
proof -
  from sq_dist_to_prototype [OF assms(1,2)] obtain dp where
    dp: "sub4 query_fts pos = Inr dp" "dims3 (sum_dim1 (pow2 dp)) = (b, h, w)"
    "\<forall>i<b. \<forall>y<h. \<forall>x<w. at3 (sum_dim1 (pow2 dp)) i y x
        = (\<Sum>j<c. (at4 query_fts i j y x - at4 pos i j 0 0)\<^sup>2)"
    by blast
  from sq_dist_to_prototype [OF assms(1,3)] obtain dn where
    dn: "sub4 query_fts neg = Inr dn" "dims3 (sum_dim1 (pow2 dn)) = (b, h, w)"
    "\<forall>i<b. \<forall>y<h. \<forall>x<w. at3 (sum_dim1 (pow2 dn)) i y x
        = (\<Sum>j<c. (at4 query_fts i j y x - at4 neg i j 0 0)\<^sup>2)"
    by blast
  show ?thesis
    using dp dn assms(4)
    by (simp add: query_pred_metric_def lt3_def binop3_def broadcast3_def mask_assign_def
        zeros_like_def)
qed

text \<open>
  One row of three pixels with embeddings 0, 1 and 2, foreground prototype 2 and
  background prototype 0: the pixel at 1 is equally far from both and gets 0.
\<close>

theorem nearest_prototype_label_witness:
  "dims4 (ramp4 (1, 1, 1, 3)) = (1, 1, 1, 3) \<and> dims4 (const4 (1, 1, 1, 1) 2) = (1, 1, 1, 1)
   \<and> dims4 (const4 (1, 1, 1, 1) 0) = (1, 1, 1, 1) \<and> dims3 (const3 (1, 1, 3) (0::int)) = (1, 1, 3)
   \<and> map_sum id (\<lambda>qp. (dims3 qp, at3 qp 0 0 0, at3 qp 0 0 1, at3 qp 0 0 2))
        (query_pred_metric (ramp4 (1, 1, 1, 3)) (const4 (1, 1, 1, 1) 2) (const4 (1, 1, 1, 1) 0)
           (const3 (1, 1, 3) 0))
       = Inr ((1, 1, 3), 0, 0, 1)"
  using nearest_prototype_label [of "ramp4 (1, 1, 1, 3)" 1 1 1 3 "const4 (1, 1, 1, 1) 2"
      "const4 (1, 1, 1, 1) 0" "const3 (1, 1, 3) 0"]
  by (auto simp: ramp4_def const4_def const3_def)

text \<open>
  Claim C9. A prediction map that lines 93 and 94 return has the shape of the query
  label map, and every element of it is 0 or 1.
\<close>

theorem query_pred_binary:
  assumes "query_pred_metric query_fts pos neg ql = Inr qp"
  shows "dims3 qp = dims3 ql \<and> (\<forall>i y x. at3 qp i y x = 0 \<or> at3 qp i y x = 1)"
  using assms
  by (auto simp: query_pred_metric_def ebind_eq_Inr mask_assign_def zeros_like_def
      split: if_splits)

theorem query_pred_binary_witness:
  "\<exists>qp. query_pred_metric (ramp4 (1, 1, 1, 3)) (const4 (1, 1, 1, 1) 2) (const4 (1, 1, 1, 1) 0)
           (const3 (1, 1, 3) 7) = Inr qp
     \<and> dims3 qp = dims3 (const3 (1, 1, 3) (7::int))
     \<and> (at3 qp 0 0 0 = 0 \<or> at3 qp 0 0 0 = 1) \<and> (at3 qp 0 0 2 = 0 \<or> at3 qp 0 0 2 = 1)"
proof -
  have "\<exists>qp. query_pred_metric (ramp4 (1, 1, 1, 3)) (const4 (1, 1, 1, 1) 2)
      (const4 (1, 1, 1, 1) 0) (const3 (1, 1, 3) 7) = Inr qp"
    by (simp add: query_pred_metric_def sub4_def lt3_def binop4_def binop3_def broadcast4_def
        broadcast3_def mask_assign_def zeros_like_def sum_dim1_def pow2_def ramp4_def const4_def
        const3_def)
  then obtain qp where h: "query_pred_metric (ramp4 (1, 1, 1, 3)) (const4 (1, 1, 1, 1) 2)
      (const4 (1, 1, 1, 1) 0) (const3 (1, 1, 3) 7) = Inr qp" ..
  from query_pred_binary [OF h] h show ?thesis by blast
qed

section \<open>Shapes\<close>

lemma binop4_dims: "binop4 f x y = Inr r \<Longrightarrow> broadcast4 (dims4 x) (dims4 y) = Inr (dims4 r)"
  by (cases "dims4 x"; cases "dims4 y") (auto simp: binop4_def ebind_eq_Inr)

lemma binop3_dims: "binop3 f x y = Inr r \<Longrightarrow> broadcast3 (dims3 x) (dims3 y) = Inr (dims3 r)"
  by (cases "dims3 x"; cases "dims3 y") (auto simp: binop3_def ebind_eq_Inr)

lemma div4_dims: "div4 x y = Inr r \<Longrightarrow> broadcast4 (dims4 x) (dims4 y) = Inr (dims4 r)"
  by (cases "dims4 y") (auto simp: div4_def ebind_eq_Inr split: if_splits dest: binop4_dims)

lemma sum_hw4_dims: "\<exists>n c. dims4 (sum_hw4 t) = (n, c, 1, 1)"
  by (cases "dims4 t") (simp add: sum_hw4_def)

lemma support_fts_pos_dims:
  assumes "support_fts_pos fts m = Inr p"
  shows "\<exists>a b. dims4 p = (a, b, 1, 1)"
proof -
  from assms obtain t where d: "div4 (sum_hw4 t) (align4 (add_scalar3 (sum_hw3 m) eps)) = Inr p"
    by (auto simp: support_fts_pos_def ebind_eq_Inr)
  obtain n c where x: "dims4 (sum_hw4 t) = (n, c, 1, 1)" using sum_hw4_dims by blast
  obtain k where y: "dims4 (align4 (add_scalar3 (sum_hw3 m) eps)) = (1, k, 1, 1)"
    by (cases "dims3 m") (simp add: align4_def add_scalar3_def sum_hw3_def)
  obtain a b u v where p: "dims4 p = (a, b, u, v)" by (cases "dims4 p") auto
  from div4_dims [OF d] have "u = 1" "v = 1"
    by (simp_all add: x y p broadcast4_Inr)
  with p show ?thesis by simp
qed

lemma support_fts_neg_dims:
  "support_fts_neg fts m = Inr p \<Longrightarrow> \<exists>a b. dims4 p = (a, b, 1, 1)"
  unfolding support_fts_neg_as_pos by (rule support_fts_pos_dims)

lemma sq_dist_dims:
  assumes "sub4 q p = Inr d" "dims4 q = (b, c, h, w)" "dims4 p = (a, e, 1, 1)"
  shows "\<exists>n. dims3 (sum_dim1 (pow2 d)) = (n, h, w)"
proof -
  obtain n k u v where d: "dims4 d = (n, k, u, v)" by (cases "dims4 d") auto
  from binop4_dims [OF assms(1) [unfolded sub4_def]] have "u = h" "v = w"
    by (simp_all add: assms d broadcast4_Inr)
  with d show ?thesis by (simp add: sum_dim1_def pow2_def)
qed

lemma query_pred_metric_dims:
  assumes "query_pred_metric query_fts pos neg ql = Inr qp"
      and "dims4 query_fts = (b, c, h, w)" "dims4 pos = (a, e, 1, 1)" "dims4 neg = (a', e', 1, 1)"
  shows "dims3 qp = dims3 ql \<and> snd (dims3 ql) = (h, w)"
proof -
  from assms(1) obtain dp dn m where dp: "sub4 query_fts pos = Inr dp"
    and dn: "sub4 query_fts neg = Inr dn"
    and m: "lt3 (sum_dim1 (pow2 dp)) (sum_dim1 (pow2 dn)) = Inr m"
    and a: "mask_assign (zeros_like ql) m 1 = Inr qp"
    by (auto simp: query_pred_metric_def ebind_eq_Inr)
  from sq_dist_dims [OF dp assms(2,3)] obtain n where n: "dims3 (sum_dim1 (pow2 dp)) = (n, h, w)" ..
  from sq_dist_dims [OF dn assms(2,4)] obtain n' where n': "dims3 (sum_dim1 (pow2 dn)) = (n', h, w)" ..
  obtain x y z where dm: "dims3 m = (x, y, z)" by (cases "dims3 m") auto
  from binop3_dims [OF m [unfolded lt3_def]] have "y = h" "z = w"
    by (simp_all add: n n' dm broadcast3_Inr)
  with a dm have "dims3 ql = (x, h, w)" "dims3 qp = dims3 ql"
    by (auto simp: mask_assign_def zeros_like_def split: if_splits)
  then show ?thesis by simp
qed

lemmas tensor_eval =
  decode_def support_fts_pos_def support_fts_neg_def query_pred_metric_def
  mul4_def sub4_def lt3_def div4_def binop4_def binop3_def broadcast4_def broadcast3_def
  broadcast_dim_def bidx_def unsqueeze1_def align4_def add_scalar3_def rsub_scalar3_def pow2_def
  sum_hw4_def sum_hw3_def sum_dim1_def zeros_like_def mask_assign_def append0_def
  all_index4_iff sum_upto_sum eps_def
  const3_def const4_def ramp4_def step3_def net_const_def batch_of_def config_test_def

text \<open>
  Claim C4. The claim: when the embedding resolution differs from the label map's, the
  decoder resamples, so a prediction map of the label map's shape is always returned.
  The script has no resampling step. With embeddings of 2 by 2 for masks and labels of
  4 by 4 the product of line 89 raises; with embeddings of 1 by 1 for masks and labels
  of 2 by 2 the prototypes are computed and the mask of line 94 has the wrong shape.
\<close>

theorem decode_coarse_embedding_fails:
  "decode config_test
      (net_const (const4 (1, 2, 4, 4) 0) (const4 (1, 1, 2, 2) 1) (const4 (1, 1, 2, 2) 1))
      (batch_of (const4 (1, 3, 4, 4) 0) [[const3 (1, 4, 4) 1]] [const3 (1, 4, 4) 0] [[1]])
     = Inl RuntimeError
   \<and> decode config_test
      (net_const (const4 (1, 2, 2, 2) 0) (const4 (1, 1, 1, 1) 1) (const4 (1, 1, 1, 1) 1))
      (batch_of (const4 (1, 3, 2, 2) 0) [[const3 (1, 2, 2) 1]] [const3 (1, 2, 2) 0] [[1]])
     = Inl IndexError"
  by (simp add: tensor_eval)

text \<open>
  Claim C4 as amended: whenever the prototype-distance decoding returns a prediction map,
  the map has the shape of the query label map, and the query embedding that the network
  returned already had the label map's height and width.
\<close>

theorem decode_metric_no_resampling:
  assumes "model_type cfg \<noteq> ''fewshot''" "decode cfg net sb = Inr (qp, ql)"
      and "dims4 (snd (metric_net net (support_images sb) (query_images sb))) = (b, c, h, w)"
  shows "dims3 qp = dims3 ql \<and> snd (dims3 ql) = (h, w)"
proof -
  obtain sf qf where mn: "metric_net net (support_images sb) (query_images sb) = (sf, qf)"
    by (cases "metric_net net (support_images sb) (query_images sb)") auto
  with assms(1,2) obtain fg pos neg where
    pos: "support_fts_pos sf fg = Inr pos" and neg: "support_fts_neg sf fg = Inr neg"
    and qp: "query_pred_metric qf pos neg ql = Inr qp"
    by (auto simp: decode_def ebind_eq_Inr)
  from support_fts_pos_dims [OF pos] obtain a e where p: "dims4 pos = (a, e, 1, 1)" by blast
  from support_fts_neg_dims [OF neg] obtain a' e' where n: "dims4 neg = (a', e', 1, 1)" by blast
  from assms(3) mn have "dims4 qf = (b, c, h, w)" by simp
  from query_pred_metric_dims [OF qp this p n] show ?thesis .
qed

theorem decode_metric_no_resampling_witness:
  "model_type config_test \<noteq> ''fewshot''
   \<and> (\<exists>qp ql. decode config_test
          (net_const (const4 (1, 2, 1, 3) 0) (ramp4 (1, 1, 1, 3)) (ramp4 (1, 1, 1, 3)))
          (batch_of (const4 (1, 3, 1, 3) 0) [[step3 (1, 1, 3) 2]] [const3 (1, 1, 3) 0] [[1]])
        = Inr (qp, ql) \<and> dims3 qp = dims3 ql \<and> snd (dims3 ql) = (1, 3))"
proof -
  have m: "model_type config_test \<noteq> ''fewshot''"
    by (simp add: config_test_def)
  have "\<exists>qp ql. decode config_test
          (net_const (const4 (1, 2, 1, 3) 0) (ramp4 (1, 1, 1, 3)) (ramp4 (1, 1, 1, 3)))
          (batch_of (const4 (1, 3, 1, 3) 0) [[step3 (1, 1, 3) 2]] [const3 (1, 1, 3) 0] [[1]])
        = Inr (qp, ql)"
    by (simp add: tensor_eval lessThan_Suc numeral_3_eq_3)
  then obtain qp ql where d: "decode config_test
          (net_const (const4 (1, 2, 1, 3) 0) (ramp4 (1, 1, 1, 3)) (ramp4 (1, 1, 1, 3)))
          (batch_of (const4 (1, 3, 1, 3) 0) [[step3 (1, 1, 3) 2]] [const3 (1, 1, 3) 0] [[1]])
        = Inr (qp, ql)" by blast
  have s: "dims4 (snd (metric_net
          (net_const (const4 (1, 2, 1, 3) 0) (ramp4 (1, 1, 1, 3)) (ramp4 (1, 1, 1, 3)))
          (support_images (batch_of (const4 (1, 3, 1, 3) 0) [[step3 (1, 1, 3) 2]]
             [const3 (1, 1, 3) 0] [[1]]))
          (query_images (batch_of (const4 (1, 3, 1, 3) 0) [[step3 (1, 1, 3) 2]]
             [const3 (1, 1, 3) 0] [[1]])))) = (1, 1, 1, 3)"
    by (simp add: net_const_def ramp4_def)
  from decode_metric_no_resampling [OF m d s] m d show ?thesis by blast
qed

section \<open>The evaluation loop\<close>

lemma process_batch_cases:
  "(\<exists>e. process_batch cfg net run sb = ([], Some e))
   \<or> (\<exists>e. process_batch cfg net run sb = ([Decode], Some e))
   \<or> (\<exists>p l. process_batch cfg net run sb = ([Decode, Record p l (class_ids sb) run], None))"
  by (auto simp: process_batch_def split: sum.splits prod.splits)

lemma process_batch_order:
  assumes "process_batch cfg net run sb = (tr, r)"
  shows "prefix (map erase tr) [Decode, Record [] [] [] run]
     \<and> (r = None \<longrightarrow> map erase tr = [Decode, Record [] [] [] run])"
  using process_batch_cases [of cfg net run sb] assms by auto

lemma run_batches_order:
  "run_batches cfg net run sbs = (tr, r) \<Longrightarrow>
     prefix (map erase tr) (concat (replicate (length sbs) [Decode, Record [] [] [] run]))
     \<and> (r = None \<longrightarrow>
          map erase tr = concat (replicate (length sbs) [Decode, Record [] [] [] run]))"
proof (induction sbs arbitrary: tr r)
  case Nil
  then show ?case by simp
next
  case (Cons sb sbs)
  obtain t1 r1 where p: "process_batch cfg net run sb = (t1, r1)"
    by (cases "process_batch cfg net run sb") auto
  note o = process_batch_order [OF p]
  show ?case
  proof (cases r1)
    case (Some e)
    with Cons.prems p have tr: "tr = t1" "r = Some e" by auto
    from o have "prefix (map erase t1)
        ([Decode, Record [] [] [] run]
           @ concat (replicate (length sbs) [Decode, Record [] [] [] run]))"
      by (intro prefix_prefix) simp
    with tr show ?thesis by simp
  next
    case None
    obtain t2 r2 where q: "run_batches cfg net run sbs = (t2, r2)"
      by (cases "run_batches cfg net run sbs") auto
    with Cons.prems p None have tr: "tr = t1 @ t2" "r = r2" by auto
    from o None have e1: "map erase t1 = [Decode, Record [] [] [] run]" by simp
    from Cons.IH [OF q] e1 tr show ?thesis by simp
  qed
qed

lemma run_once_order:
  assumes "run_once cfg net testloader run = (tr, r)"
  shows "prefix (map erase tr)
           (run_calls (seed cfg) (length (testloader cfg (seed cfg + int run))) run)
     \<and> (r = None \<longrightarrow>
          map erase tr = run_calls (seed cfg) (length (testloader cfg (seed cfg + int run))) run)"
proof (cases "n_ways cfg = 1 \<and> n_shots cfg = 1 \<and> n_queries cfg = 1")
  case False
  with assms show ?thesis by (auto simp: run_once_def run_calls_def)
next
  case True
  obtain t r' where b: "run_batches cfg net run (testloader cfg (seed cfg + int run)) = (t, r')"
    by (cases "run_batches cfg net run (testloader cfg (seed cfg + int run))") auto
  from run_batches_order [OF b] True assms b show ?thesis
    by (cases r') (auto simp: run_once_def run_calls_def)
qed

lemma run_loop_order:
  "run_loop cfg net testloader runs = (tr, r) \<Longrightarrow>
     prefix (map erase tr)
       (concat (map (\<lambda>k. run_calls (seed cfg) (length (testloader cfg (seed cfg + int k))) k) runs))
     \<and> (r = None \<longrightarrow> map erase tr =
          concat (map (\<lambda>k. run_calls (seed cfg) (length (testloader cfg (seed cfg + int k))) k) runs))"
proof (induction runs arbitrary: tr r)
  case Nil
  then show ?case by simp
next
  case (Cons k runs)
  obtain t1 r1 where p: "run_once cfg net testloader k = (t1, r1)"
    by (cases "run_once cfg net testloader k") auto
  note o = run_once_order [OF p]
  show ?case
  proof (cases r1)
    case (Some e)
    with Cons.prems p have tr: "tr = t1" "r = Some e" by auto
    from o have "prefix (map erase t1)
        (run_calls (seed cfg) (length (testloader cfg (seed cfg + int k))) k
           @ concat (map (\<lambda>k. run_calls (seed cfg)
                (length (testloader cfg (seed cfg + int k))) k) runs))"
      by (intro prefix_prefix) simp
    with tr show ?thesis by simp
  next
    case None
    obtain t2 r2 where q: "run_loop cfg net testloader runs = (t2, r2)"
      by (cases "run_loop cfg net testloader runs") auto
    with Cons.prems p None have tr: "tr = t1 @ t2" "r = r2" by auto
    from o None have e1: "map erase t1
        = run_calls (seed cfg) (length (testloader cfg (seed cfg + int k))) k" by simp
    from Cons.IH [OF q] e1 tr show ?thesis by simp
  qed
qed

lemmas loop_eval =
  test_def run_once_def process_batch_def array0_def argmax_dim1_def loader_const_def
  nets1_def episode1_def nets2_def episode2_def diag4_def index3_def
  lessThan_Suc numeral_2_eq_2 numeral_3_eq_3

lemma process_episode1:
  "model_type cfg = ''metric'' \<Longrightarrow>
   process_batch cfg nets1 run episode1
     = ([Decode, Record [[0, 0, 1]] [[0, 0, 0]] [[1]] run], None)"
  by (simp add: tensor_eval loop_eval)

lemma test_two_runs:
  "test (config_test\<lparr>n_runs := 2\<rparr>) nets1 (loader_const [episode1])
     = ([SetSeed 1234,
         SetSeed 1234, Decode, Record [[0, 0, 1]] [[0, 0, 0]] [[1]] 0,
           GetMIoU (Some 0), GetMIoUBinary (Some 0),
         SetSeed 1235, Decode, Record [[0, 0, 1]] [[0, 0, 0]] [[1]] 1,
           GetMIoU (Some 1), GetMIoUBinary (Some 1),
         GetMIoU None, GetMIoUBinary None], None)"
  by (simp add: test_def run_once_def process_episode1 loader_const_def config_test_def
      numeral_2_eq_2)

lemma process_episode2:
  "model_type cfg = ''fewshot'' \<Longrightarrow>
   process_batch cfg nets2 run episode2 = ([Decode, Record [[0, 0]] [[0, 0]] [[5, 7]] run], None)"
  by (simp add: tensor_eval loop_eval)

lemma decode_episode2:
  "model_type cfg = ''fewshot'' \<Longrightarrow>
   map_sum id (\<lambda>(qp, ql). (dims3 qp, at3 qp 1 0 0, at3 qp 1 0 1)) (decode cfg nets2 episode2)
     = Inr ((2, 1, 2), 1, 1)"
  by (simp add: tensor_eval loop_eval)

text \<open>
  Batch by batch the order is kept. Whatever the outcome, the calls that \<open>test\<close> has
  made are an initial part of this order: the seed of line 21, then for every run index
  below \<open>n_runs\<close> the reseed with \<open>seed + run\<close>, a decode and a record for every batch
  of the data loader, and \<open>get_mIoU\<close> and \<open>get_mIoU_binary\<close> with that run index, and
  after all runs the two calls without a run index. When \<open>test\<close> ends without an
  exception the calls are exactly this order.
\<close>

lemma test_call_order:
  "prefix (map erase (fst (test cfg net testloader)))
     (SetSeed (seed cfg) # call_order (seed cfg) (nat (n_runs cfg))
        (\<lambda>k. length (testloader cfg (seed cfg + int k))))
   \<and> (snd (test cfg net testloader) = None \<longrightarrow>
        map erase (fst (test cfg net testloader)) =
          SetSeed (seed cfg) # call_order (seed cfg) (nat (n_runs cfg))
            (\<lambda>k. length (testloader cfg (seed cfg + int k))))"
proof -
  obtain t r where l: "run_loop cfg net testloader [0..<nat (n_runs cfg)] = (t, r)"
    by (cases "run_loop cfg net testloader [0..<nat (n_runs cfg)]") auto
  from run_loop_order [OF l] l show ?thesis
    by (cases r) (auto simp: test_def call_order_def)
qed

text \<open>Two runs over a data loader that yields one episode.\<close>

lemma test_call_order_two_runs:
  "snd (test (config_test\<lparr>n_runs := 2\<rparr>) nets1 (loader_const [episode1])) = None
   \<and> map erase (fst (test (config_test\<lparr>n_runs := 2\<rparr>) nets1 (loader_const [episode1])))
      = [SetSeed 1234,
         SetSeed (1234 + 0), Decode, Record [] [] [] 0, GetMIoU (Some 0), GetMIoUBinary (Some 0),
         SetSeed (1234 + 1), Decode, Record [] [] [] 1, GetMIoU (Some 1), GetMIoUBinary (Some 1),
         GetMIoU None, GetMIoUBinary None]"
proof -
  have n: "snd (test (config_test\<lparr>n_runs := 2\<rparr>) nets1 (loader_const [episode1])) = None"
    by (simp add: test_two_runs)
  from test_call_order [of "config_test\<lparr>n_runs := 2\<rparr>" nets1 "loader_const [episode1]"] n
  show ?thesis
    by (simp add: call_order_def run_calls_def config_test_def loader_const_def numeral_2_eq_2)
qed

text \<open>
  Claim C7. The claim: in every run, after the reseed with \<open>base_seed + run_index\<close>, each
  episode is decoded and then recorded exactly once, before that run's statistics and,
  after all runs, the statistics across runs. Lines 96 to 98 call \<open>record\<close> once per
  batch, with element 0 of the batch. With a batch size of 2 and a data loader that
  yields two batches, four episodes are decoded (the second episode of a batch is
  predicted as class 1 at both pixels, against a label map of 1) and \<open>record\<close> is
  called twice, both times with the first episode of the batch; the second episodes are
  never recorded.
\<close>

theorem two_episodes_one_record:
  "test (config_test\<lparr>model_type := ''fewshot'', batch_size := 2, n_runs := 1\<rparr>) nets2
      (loader_const [episode2, episode2])
     = ([SetSeed 1234,
         SetSeed 1234,
         Decode, Record [[0, 0]] [[0, 0]] [[5, 7]] 0,
         Decode, Record [[0, 0]] [[0, 0]] [[5, 7]] 0,
         GetMIoU (Some 0), GetMIoUBinary (Some 0),
         GetMIoU None, GetMIoUBinary None], None)
   \<and> map_sum id (\<lambda>(qp, ql). (dims3 qp, dims3 ql,
          [[at3 qp 0 0 0, at3 qp 0 0 1], [at3 qp 1 0 0, at3 qp 1 0 1]],
          [[at3 ql 0 0 0, at3 ql 0 0 1], [at3 ql 1 0 0, at3 ql 1 0 1]]))
        (decode (config_test\<lparr>model_type := ''fewshot'', batch_size := 2, n_runs := 1\<rparr>)
           nets2 episode2)
       = Inr ((2, 1, 2), (2, 1, 2), [[0, 0], [1, 1]], [[0, 0], [1, 1]])"
  by (simp add: test_def run_once_def process_episode2 loader_const_def config_test_def)
    (simp add: tensor_eval loop_eval)

text \<open>
  Claim C5. Under a configuration whose \<open>model_type\<close> is not one of the two strategies,
  or whose way, shot and query counts are not 1/1/1, \<open>test\<close> never decodes or records
  anything. An unknown \<open>model_type\<close> fails the assertion of line 23 right after the first
  seed. With a known \<open>model_type\<close>, counts other than 1/1/1 fail the assertion of line 50
  as soon as a run begins (mode \<open>'test'\<close>, at least one run), right after that run's
  reseed and before its data are loaded.
\<close>

theorem config_assertions:
  assumes "model_type cfg \<notin> set [''fewshot'', ''metric'']
     \<or> \<not> (n_ways cfg = 1 \<and> n_shots cfg = 1 \<and> n_queries cfg = 1)"
  shows "filter (\<lambda>e. e = Decode \<or> is_record e) (fst (test cfg net testloader)) = []
     \<and> (model_type cfg \<notin> set [''fewshot'', ''metric''] \<longrightarrow>
          test cfg net testloader = ([SetSeed (seed cfg)], Some AssertionError))
     \<and> (model_type cfg \<in> set [''fewshot'', ''metric''] \<and> mode cfg = Test \<and> 1 \<le> n_runs cfg \<longrightarrow>
          test cfg net testloader
            = ([SetSeed (seed cfg), SetSeed (seed cfg)], Some AssertionError))"
proof (cases "model_type cfg \<notin> set [''fewshot'', ''metric'']")
  case True
  then show ?thesis by (simp add: test_def)
next
  case False
  with assms have c: "\<not> (n_ways cfg = 1 \<and> n_shots cfg = 1 \<and> n_queries cfg = 1)" by blast
  then have r: "run_once cfg net testloader k = ([SetSeed (seed cfg + int k)], Some AssertionError)"
    for k by (simp add: run_once_def)
  show ?thesis
  proof (cases "mode cfg = Test")
    case m: False
    with False show ?thesis by (simp add: test_def)
  next
    case m: True
    show ?thesis
    proof (cases "1 \<le> n_runs cfg")
      case True
      then have "[0..<nat (n_runs cfg)] = 0 # [1..<nat (n_runs cfg)]"
        by (simp add: upt_conv_Cons)
      with False m r [of 0] show ?thesis by (simp add: test_def)
    next
      case n: False
      then have "[0..<nat (n_runs cfg)] = []" by simp
      with False m n show ?thesis by (simp add: test_def)
    qed
  qed
qed

text \<open>
  Two ways under the values of \<open>config.py\<close> in mode \<open>'test'\<close> (five runs), and a
  \<open>model_type\<close> that is neither strategy.
\<close>

theorem config_assertions_witness:
  "n_ways (config_test\<lparr>n_ways := 2\<rparr>) \<noteq> 1
   \<and> model_type (config_test\<lparr>n_ways := 2\<rparr>) = ''metric''
   \<and> mode (config_test\<lparr>n_ways := 2\<rparr>) = Test \<and> 1 \<le> n_runs (config_test\<lparr>n_ways := 2\<rparr>)
   \<and> test (config_test\<lparr>n_ways := 2\<rparr>) nets1 (loader_const [episode1])
        = ([SetSeed 1234, SetSeed 1234], Some AssertionError)
   \<and> model_type (config_test\<lparr>model_type := ''knn''\<rparr>) = ''knn''
   \<and> test (config_test\<lparr>model_type := ''knn''\<rparr>) nets1 (loader_const [episode1])
        = ([SetSeed 1234], Some AssertionError)
   \<and> filter (\<lambda>e. e = Decode \<or> is_record e)
        (fst (test (config_test\<lparr>n_ways := 2\<rparr>) nets1 (loader_const [episode1]))) = []"
  using config_assertions [of "config_test\<lparr>n_ways := 2\<rparr>" nets1 "loader_const [episode1]"]
    config_assertions [of "config_test\<lparr>model_type := ''knn''\<rparr>" nets1 "loader_const [episode1]"]
  by (simp add: config_test_def)

text \<open>
  Claim C3. The claim: with more than one shot the shot-level prototypes are averaged.
  Lines 86 to 94 on an episode of two shots (batch size 1, two channels) do not average:
  the two shots become two support samples, the distance maps get a batch of two and the
  mask of line 94 does not fit the label map. And \<open>test\<close> does not get that far: with
  \<open>n_shots = 2\<close> a run stops at the assertion of line 50.
\<close>

theorem two_shots_not_averaged:
  "decode config_test
      (net_const (const4 (1, 2, 2, 2) 0) (const4 (2, 2, 2, 2) 1) (const4 (1, 2, 2, 2) 1))
      (batch_of (const4 (1, 3, 2, 2) 0) [[const3 (1, 2, 2) 1, const3 (1, 2, 2) 1]]
         [const3 (1, 2, 2) 0] [[1]])
     = Inl IndexError
   \<and> run_once (config_test\<lparr>n_shots := 2\<rparr>)
        (net_const (const4 (1, 2, 2, 2) 0) (const4 (2, 2, 2, 2) 1) (const4 (1, 2, 2, 2) 1))
        (loader_const [batch_of (const4 (1, 3, 2, 2) 0) [[const3 (1, 2, 2) 1, const3 (1, 2, 2) 1]]
         [const3 (1, 2, 2) 0] [[1]]]) 0
     = ([SetSeed 1234], Some AssertionError)"
  by (simp add: tensor_eval run_once_def less_Suc_eq numeral_2_eq_2)

text \<open>
  Claim C3 as amended: a run under a configuration with \<open>n_shots\<close> other than 1 stops at
  the assertion right after its reseed; and for an episode of one way and one shot the
  prototypes compared with the query pixels are those of that one support mask, with no
  averaging step.
\<close>

theorem single_shot_no_averaging:
  "(n_shots cfg \<noteq> 1 \<longrightarrow>
      run_once cfg net testloader run = ([SetSeed (seed cfg + int run)], Some AssertionError))
   \<and> (model_type cfg \<noteq> ''fewshot'' \<and> support_mask sb = [[mp]] \<longrightarrow>
        decode cfg net sb =
          ebind (cat0 (query_labels sb)) (\<lambda>ql.
            case metric_net net (support_images sb) (query_images sb) of
              (support_fts, query_fts) \<Rightarrow>
                ebind (support_fts_pos support_fts (fg_mask mp)) (\<lambda>pos.
                ebind (support_fts_neg support_fts (fg_mask mp)) (\<lambda>neg.
                ebind (query_pred_metric query_fts pos neg ql) (\<lambda>qp. Inr (qp, ql))))))"
  by (simp add: run_once_def decode_def)

theorem single_shot_no_averaging_witness:
  "n_shots (config_test\<lparr>n_shots := 2\<rparr>) \<noteq> 1
   \<and> run_once (config_test\<lparr>n_shots := 2\<rparr>) nets1 (loader_const [episode1]) 3
        = ([SetSeed 1237], Some AssertionError)
   \<and> model_type config_test \<noteq> ''fewshot''
   \<and> support_mask episode1 = [[\<lparr>fg_mask = step3 (1, 1, 3) 2, bg_mask = rsub_scalar3 1 (step3 (1, 1, 3) 2)\<rparr>]]
   \<and> map_sum id (\<lambda>(qp, ql). (dims3 qp, at3 qp 0 0 0, at3 qp 0 0 1, at3 qp 0 0 2))
        (decode config_test nets1 episode1) = Inr ((1, 1, 3), 0, 0, 1)"
proof -
  have m: "model_type config_test \<noteq> ''fewshot''
      \<and> support_mask episode1
          = [[\<lparr>fg_mask = step3 (1, 1, 3) 2, bg_mask = rsub_scalar3 1 (step3 (1, 1, 3) 2)\<rparr>]]"
    by (simp add: config_test_def episode1_def batch_of_def)
  have s: "n_shots (config_test\<lparr>n_shots := 2\<rparr>) \<noteq> 1" by simp
  note t = single_shot_no_averaging [of "config_test\<lparr>n_shots := 2\<rparr>" nets1
      "loader_const [episode1]" 3 episode1
      "\<lparr>fg_mask = step3 (1, 1, 3) 2, bg_mask = rsub_scalar3 1 (step3 (1, 1, 3) 2)\<rparr>"]
  note u = single_shot_no_averaging [of config_test nets1
      "loader_const [episode1]" 3 episode1
      "\<lparr>fg_mask = step3 (1, 1, 3) 2, bg_mask = rsub_scalar3 1 (step3 (1, 1, 3) 2)\<rparr>"]
  from t s have r: "run_once (config_test\<lparr>n_shots := 2\<rparr>) nets1 (loader_const [episode1]) 3
        = ([SetSeed 1237], Some AssertionError)"
    by (simp add: config_test_def)
  from u m have "decode config_test nets1 episode1 =
          ebind (cat0 (query_labels episode1)) (\<lambda>ql.
            case metric_net nets1 (support_images episode1) (query_images episode1) of
              (support_fts, query_fts) \<Rightarrow>
                ebind (support_fts_pos support_fts (step3 (1, 1, 3) 2)) (\<lambda>pos.
                ebind (support_fts_neg support_fts (step3 (1, 1, 3) 2)) (\<lambda>neg.
                ebind (query_pred_metric query_fts pos neg ql) (\<lambda>qp. Inr (qp, ql)))))"
    by simp
  then have "map_sum id (\<lambda>(qp, ql). (dims3 qp, at3 qp 0 0 0, at3 qp 0 0 1, at3 qp 0 0 2))
        (decode config_test nets1 episode1) = Inr ((1, 1, 3), 0, 0, 1)"
    by (simp add: tensor_eval loop_eval)
  with r s m show ?thesis by simp
qed

lemma array0_first_element: "array0 t = Inr a \<Longrightarrow> a = first_element t"
  by (cases "dims3 t") (auto simp: array0_def first_element_def split: if_splits)

lemma process_batch_record:
  assumes "process_batch cfg net run sb = (tr, None)"
  shows "\<exists>qp ql. decode cfg net sb = Inr (qp, ql)
     \<and> tr = [Decode, Record (first_element qp) (first_element ql) (class_ids sb) run]"
  using assms
  by (auto simp: process_batch_def ebind_eq_Inr split: sum.splits prod.splits
      dest!: array0_first_element)

lemma run_batches_records:
  "run_batches cfg net run sbs = (tr, None) \<Longrightarrow> length (filter is_record tr) = length sbs"
proof (induction sbs arbitrary: tr)
  case Nil
  then show ?case by simp
next
  case (Cons sb sbs)
  obtain t1 r1 where p: "process_batch cfg net run sb = (t1, r1)"
    by (cases "process_batch cfg net run sb") auto
  obtain t2 r2 where q: "run_batches cfg net run sbs = (t2, r2)"
    by (cases "run_batches cfg net run sbs") auto
  from Cons.prems p q have n: "r1 = None" "r2 = None" "tr = t1 @ t2"
    by (auto split: option.splits)
  from process_batch_record [OF p [unfolded n(1)]] have "length (filter is_record t1) = 1"
    by auto
  with Cons.IH [OF q [unfolded n(2)]] n(3) show ?case by simp
qed

text \<open>
  Claim C10. The claim: \<open>record\<close> is invoked only with the first element of the batch,
  so the later episodes of a batch contribute nothing. Line 67 takes the class ids of
  the whole batch and line 98 passes them on: two batches of two that differ only in the
  class id of the second episode (7 or 9) give two different calls of \<open>record\<close>.
\<close>

theorem second_class_id_recorded:
  "process_batch (config_test\<lparr>model_type := ''fewshot''\<rparr>) nets2 0 episode2
     = ([Decode, Record [[0, 0]] [[0, 0]] [[5, 7]] 0], None)
   \<and> process_batch (config_test\<lparr>model_type := ''fewshot''\<rparr>) nets2 0
        (episode2\<lparr>class_ids := [[5, 9]]\<rparr>)
     = ([Decode, Record [[0, 0]] [[0, 0]] [[5, 9]] 0], None)"
  by (simp add: tensor_eval loop_eval)

text \<open>
  Claim C10 as amended: a batch that is processed without an exception leaves exactly one
  call of \<open>record\<close>, with element 0 of the prediction, element 0 of the labels and the
  class ids of all elements of the batch; a batch that raises leaves none; a loop over
  the batches that ends without an exception has called \<open>record\<close> once per batch. The
  first element depends on index 0 of the batch only, so the predictions and label maps
  of the later episodes of a batch do not reach \<open>record\<close>.
\<close>

theorem record_first_element_only:
  "(snd (process_batch cfg net run sb) = None \<longrightarrow>
      (\<exists>qp ql. decode cfg net sb = Inr (qp, ql)
         \<and> fst (process_batch cfg net run sb)
             = [Decode, Record (first_element qp) (first_element ql) (class_ids sb) run]))
   \<and> (snd (process_batch cfg net run sb) \<noteq> None \<longrightarrow>
        filter is_record (fst (process_batch cfg net run sb)) = [])
   \<and> (snd (run_batches cfg net run sbs) = None \<longrightarrow>
        length (filter is_record (fst (run_batches cfg net run sbs))) = length sbs)
   \<and> (snd (dims3 t) = snd (dims3 t') \<and> (\<forall>y x. at3 t 0 y x = at3 t' 0 y x) \<longrightarrow>
        first_element t = first_element t')"
proof (intro conjI impI)
  assume "snd (process_batch cfg net run sb) = None"
  then have "process_batch cfg net run sb = (fst (process_batch cfg net run sb), None)"
    by (metis prod.collapse)
  from process_batch_record [OF this]
  show "\<exists>qp ql. decode cfg net sb = Inr (qp, ql)
         \<and> fst (process_batch cfg net run sb)
             = [Decode, Record (first_element qp) (first_element ql) (class_ids sb) run]" .
next
  assume "snd (process_batch cfg net run sb) \<noteq> None"
  with process_batch_cases [of cfg net run sb]
  show "filter is_record (fst (process_batch cfg net run sb)) = []" by auto
next
  assume "snd (run_batches cfg net run sbs) = None"
  then have "run_batches cfg net run sbs = (fst (run_batches cfg net run sbs), None)"
    by (metis prod.collapse)
  from run_batches_records [OF this]
  show "length (filter is_record (fst (run_batches cfg net run sbs))) = length sbs" .
next
  assume "snd (dims3 t) = snd (dims3 t') \<and> (\<forall>y x. at3 t 0 y x = at3 t' 0 y x)"
  then show "first_element t = first_element t'"
    by (cases "dims3 t"; cases "dims3 t'") (simp add: first_element_def)
qed

text \<open>
  A batch of two under \<open>'fewshot'\<close>: the second sample is decoded to class 1 at both
  pixels, and \<open>record\<close> receives the first sample only.
\<close>

theorem record_first_element_only_witness:
  "snd (process_batch (config_test\<lparr>model_type := ''fewshot''\<rparr>) nets2 0 episode2) = None
   \<and> fst (process_batch (config_test\<lparr>model_type := ''fewshot''\<rparr>) nets2 0 episode2)
       = [Decode, Record [[0, 0]] [[0, 0]] [[5, 7]] 0]
   \<and> (\<exists>qp ql. decode (config_test\<lparr>model_type := ''fewshot''\<rparr>) nets2 episode2 = Inr (qp, ql)
         \<and> first_element qp = [[0, 0]] \<and> first_element ql = [[0, 0]]
         \<and> dims3 qp = (2, 1, 2) \<and> at3 qp 1 0 0 = 1 \<and> at3 qp 1 0 1 = 1)
   \<and> length (filter is_record (fst (run_batches (config_test\<lparr>model_type := ''fewshot''\<rparr>)
        nets2 0 [episode2, episode2]))) = 2"
proof -
  let ?cfg = "config_test\<lparr>model_type := ''fewshot''\<rparr>"
  have m: "model_type ?cfg = ''fewshot''" by simp
  have p: "process_batch ?cfg nets2 0 episode2 = ([Decode, Record [[0, 0]] [[0, 0]] [[5, 7]] 0], None)"
    using m by (rule process_episode2)
  have b: "snd (run_batches ?cfg nets2 0 [episode2, episode2]) = None"
    by (simp add: p)
  note t = record_first_element_only [of ?cfg nets2 0 episode2 "[episode2, episode2]"
      "index3 (2, 1, 2)" "index3 (2, 1, 2)"]
  from t p have "\<exists>qp ql. decode ?cfg nets2 episode2 = Inr (qp, ql)
      \<and> [[0, 0]] = first_element qp \<and> [[0, 0]] = first_element ql" by auto
  then obtain qp ql where d: "decode ?cfg nets2 episode2 = Inr (qp, ql)"
    and f: "first_element qp = [[0, 0]]" "first_element ql = [[0, 0]]" by metis
  from decode_episode2 [OF m] d have "dims3 qp = (2, 1, 2)" "at3 qp 1 0 0 = 1" "at3 qp 1 0 1 = 1"
    by simp_all
  with t p b d f show ?thesis by simp
qed

section \<open>Statistics across runs: mean and population standard deviation\<close>







end
